theory Spec2Isabelle
  imports Main "HOL-Library.Word"
begin

section \<open>Value model of the evaluation engine\<close>

text \<open>
  The embedded sources are the COLLATE and introducer nodes of the evaluation engine
  (\<^verbatim>\<open>CollateExpr.eval\<close>, \<^verbatim>\<open>CollateExpr.compile\<close>, \<^verbatim>\<open>introducerCast\<close>,
  \<^verbatim>\<open>IntroducerExpr.eval\<close>, \<^verbatim>\<open>IntroducerExpr.compile\<close>) and the pooled parser
  entry point \<^verbatim>\<open>yyParsePooled\<close>. The value types, the collation catalog, the
  assembler and the virtual machine are not part of the sources; each of them is
  introduced below with a comment that says where it comes from.
\<close>

type_synonym byte = "8 word"

text \<open>
  Modelled from the spec: the package \<^verbatim>\<open>collations\<close> is not in the sources. Section 3:
  a typed collation is a collation identifier, a coercibility from the ordered scale
  and a repertoire; the field and constant names are those the sources use.
\<close>
type_synonym ID = nat

text \<open>MySQL's identifier of the \<^verbatim>\<open>binary\<close> collation.\<close>
definition CollationBinaryID :: ID where
  "CollationBinaryID = 63"

datatype Coercibility =
  CoerceExplicit | CoerceNone | CoerceImplicit | CoerceSysconst
  | CoerceCoercible | CoerceNumeric | CoerceIgnorable

datatype Repertoire = RepertoireASCII | RepertoireUnicode

record TypedCollation =
  Collation :: ID
  Coercibility :: Coercibility
  Repertoire :: Repertoire

text \<open>\<^verbatim>\<open>var collationBinary\<close> of the source.\<close>
definition collationBinary :: TypedCollation where
  "collationBinary =
     \<lparr>Collation = CollationBinaryID, Coercibility = CoerceCoercible,
      Repertoire = RepertoireASCII\<rparr>"

text \<open>The type tags of \<^verbatim>\<open>sqltypes\<close> that the two nodes distinguish, and some others.\<close>
datatype Type = Null_type | Int64 | Uint64 | Float64 | Decimal | VarChar | VarBinary
  | TypeJSON | Datetime

text \<open>
  \<^verbatim>\<open>typeFlag\<close> is a bit set in the source; \<^verbatim>\<open>flag |= f\<close> is \<open>insert f\<close> on a set of
  flag names.
\<close>
datatype typeFlag = flagNull | flagNullable | flagExplicitCollation | flagHex | flagBit

text \<open>
  Modelled from the spec: the declaration of \<^verbatim>\<open>evalBytes\<close> is not in the sources.
  Section 3: a byte string value with its type tag, flag bits and typed collation; the
  sources use the fields \<^verbatim>\<open>flag\<close>, \<^verbatim>\<open>col\<close> and \<^verbatim>\<open>bytes\<close>.
\<close>
record evalBytes =
  tt :: Type
  flag :: "typeFlag set"
  col :: TypedCollation
  bytes :: "byte list"

text \<open>
  Modelled from the spec: the interface \<^verbatim>\<open>eval\<close> and the value types other than
  \<^verbatim>\<open>evalBytes\<close> are not in the sources. A value that is not a byte string (a number, a temporal value,
  a JSON document) is kept as its type tag together with the bytes that its
  \<^verbatim>\<open>ToRawBytes\<close> renders. The nil interface value (SQL NULL) is \<open>None\<close> of
  \<open>eval option\<close>.
\<close>
datatype eval = EvalBytes evalBytes | EvalOther Type "byte list"

text \<open>
  Modelled from the spec: section 7 names the error kinds; \<^verbatim>\<open>vterrors.New\<close> of the sources
  makes an error from a code of \<^verbatim>\<open>vtrpcpb\<close> and a message.
\<close>
datatype Code = INVALID_ARGUMENT | UNIMPLEMENTED | INTERNAL | OUT_OF_RANGE

text \<open>A Go run-time panic is an outcome of its own, not an error value.\<close>
datatype panic = NilPointerDereference | InterfaceConversion

datatype error = VtError Code string | Panic panic

section \<open>The collation catalog\<close>

datatype Charset =
  Charset_binary | Charset_latin1 | Charset_utf8mb3 | Charset_utf8mb4
  | Charset_utf16 | Charset_utf16le | Charset_ucs2 | Charset_utf32

text \<open>
  Modelled from the spec: \<^verbatim>\<open>colldata.Lookup\<close> is not in the sources. Section 6 gives
  the catalog as a read-only table from collation identifiers to their charset; the
  entries below are MySQL's identifiers for one or two collations of each charset.
  An unknown identifier has no entry (\<^verbatim>\<open>Lookup\<close> returns nil).
\<close>
definition colldata_Lookup :: "ID \<Rightarrow> Charset option" where
  "colldata_Lookup c =
     (if c = 63 then Some Charset_binary
      else if c = 8 then Some Charset_latin1
      else if c = 33 then Some Charset_utf8mb3
      else if c = 45 \<or> c = 46 \<or> c = 255 then Some Charset_utf8mb4
      else if c = 54 \<or> c = 55 then Some Charset_utf16
      else if c = 56 then Some Charset_utf16le
      else if c = 35 then Some Charset_ucs2
      else if c = 60 \<or> c = 61 then Some Charset_utf32
      else None)"

text \<open>
  Modelled from the spec: \<^verbatim>\<open>collations.Environment\<close> is not in the sources. It is the
  catalog handle of an execution or of a compiler, here the two name lookups that
  \<^verbatim>\<open>EnsureCollate\<close> needs, and a parameter of everything below.
\<close>
record Environment =
  LookupName :: "ID \<Rightarrow> string"
  LookupCharsetName :: "ID \<Rightarrow> string"

text \<open>
  Modelled from the spec: \<^verbatim>\<open>Environment.EnsureCollate\<close> is not in the sources.
  Section 4.2: validate convertibility (charset compatibility). The two collations
  are compatible when they belong to the same charset; otherwise the result is the
  message of the error.
\<close>
definition EnsureCollate :: "Environment \<Rightarrow> ID \<Rightarrow> ID \<Rightarrow> string option" where
  "EnsureCollate cenv fromID toID =
     (if LookupCharsetName cenv fromID \<noteq> LookupCharsetName cenv toID
      then Some (''COLLATION '' @ LookupName cenv toID
                 @ '' is not valid for CHARACTER SET '' @ LookupCharsetName cenv fromID)
      else None)"

section \<open>Helpers on values\<close>

text \<open>
  Modelled from the spec: the constructors \<^verbatim>\<open>newEvalText\<close> and \<^verbatim>\<open>newEvalBinary\<close> are
  not in the sources. A text value is a character string under the given collation; a
  binary value is a binary string under \<open>collationBinary\<close>. Both start without flags.
\<close>
definition newEvalText :: "byte list \<Rightarrow> TypedCollation \<Rightarrow> evalBytes" where
  "newEvalText raw c = \<lparr>tt = VarChar, flag = {}, col = c, bytes = raw\<rparr>"

definition newEvalBinary :: "byte list \<Rightarrow> evalBytes" where
  "newEvalBinary raw = \<lparr>tt = VarBinary, flag = {}, col = collationBinary, bytes = raw\<rparr>"

text \<open>
  Modelled from the spec: \<^verbatim>\<open>evalBytes.withCollation\<close> is not in the sources.
  Section 4.2: re-tag the inner value's collation to the explicit target.
\<close>
definition withCollation :: "evalBytes \<Rightarrow> TypedCollation \<Rightarrow> evalBytes" where
  "withCollation e c = e\<lparr>col := c\<rparr>"

text \<open>
  Modelled from the spec: \<^verbatim>\<open>ToRawBytes\<close> of the interface \<^verbatim>\<open>eval\<close> is not in the sources.
  On a value that is not nil it gives the raw bytes of the value.
\<close>
fun ToRawBytes :: "eval \<Rightarrow> byte list" where
  "ToRawBytes (EvalBytes b) = bytes b"
| "ToRawBytes (EvalOther t raw) = raw"

text \<open>
  Modelled from the spec: the method \<^verbatim>\<open>(*evalBytes).ToRawBytes\<close> is not in the sources.
  It reads the \<^verbatim>\<open>bytes\<close> field of its receiver, so on a nil receiver it is a nil
  pointer dereference. The receiver is a pointer: \<open>None\<close> is nil.
\<close>
fun evalBytes_ToRawBytes :: "evalBytes option \<Rightarrow> error + byte list" where
  "evalBytes_ToRawBytes None = Inl (Panic NilPointerDereference)"
| "evalBytes_ToRawBytes (Some b) = Inr (bytes b)"

text \<open>
  Modelled from the spec: \<^verbatim>\<open>evalToBinary\<close> is not in the sources. Section 4.2: when the
  target is the binary collation the byte sequence is treated as opaque binary. The
  raw bytes of the value become a binary string; \<^verbatim>\<open>ToRawBytes\<close> on the nil interface
  value panics.
\<close>
fun evalToBinary :: "eval option \<Rightarrow> error + evalBytes" where
  "evalToBinary None = Inl (Panic NilPointerDereference)"
| "evalToBinary (Some v) = Inr (newEvalBinary (ToRawBytes v))"

text \<open>The type assertion \<^verbatim>\<open>b, ok := e.(*evalBytes)\<close>: \<open>b\<close> is nil exactly when \<open>ok\<close> is false.\<close>
fun as_evalBytes :: "eval option \<Rightarrow> evalBytes option" where
  "as_evalBytes (Some (EvalBytes b)) = Some b"
| "as_evalBytes _ = None"

text \<open>\<^verbatim>\<open>b.flag |= flagExplicitCollation\<close>.\<close>
definition setExplicit :: "evalBytes \<Rightarrow> evalBytes" where
  "setExplicit b = b\<lparr>flag := insert flagExplicitCollation (flag b)\<rparr>"

section \<open>The introducer\<close>

text \<open>
  The padding \<^verbatim>\<open>switch cs.(type)\<close> of \<^verbatim>\<open>introducerCast\<close>:
  \<^verbatim>\<open>append([]byte{0}, bytes...)\<close> and \<^verbatim>\<open>append(make([]byte, 4-mod), bytes...)\<close>.
\<close>
fun pad_for_charset :: "Charset \<Rightarrow> byte list \<Rightarrow> byte list" where
  "pad_for_charset Charset_utf16 raw = (if length raw mod 2 \<noteq> 0 then 0 # raw else raw)"
| "pad_for_charset Charset_utf16le raw = (if length raw mod 2 \<noteq> 0 then 0 # raw else raw)"
| "pad_for_charset Charset_ucs2 raw = (if length raw mod 2 \<noteq> 0 then 0 # raw else raw)"
| "pad_for_charset Charset_utf32 raw =
     (let m = length raw mod 4 in if m \<noteq> 0 then replicate (4 - m) 0 @ raw else raw)"
| "pad_for_charset _ raw = raw"

text \<open>
  \<^verbatim>\<open>introducerCast\<close>. In the branch \<^verbatim>\<open>!ok\<close> the source calls \<^verbatim>\<open>b.ToRawBytes()\<close> on the
  \<open>b\<close> of the failed type assertion, which is nil. \<^verbatim>\<open>colldata.Lookup(col).Charset()\<close> on
  an unknown identifier is a method call on nil.
\<close>
definition introducerCast :: "eval option \<Rightarrow> ID \<Rightarrow> error + evalBytes" where
  "introducerCast e c =
     (if c = CollationBinaryID then evalToBinary e
      else
        (case
           (case as_evalBytes e of
              None \<Rightarrow> evalBytes_ToRawBytes None
            | Some b \<Rightarrow>
                (case colldata_Lookup c of
                   None \<Rightarrow> Inl (Panic NilPointerDereference)
                 | Some cs \<Rightarrow> Inr (pad_for_charset cs (bytes b))))
         of
           Inl err \<Rightarrow> Inl err
         | Inr raw \<Rightarrow>
             Inr (newEvalText raw
                   \<lparr>Collation = c, Coercibility = CoerceCoercible,
                    Repertoire = RepertoireASCII\<rparr>)))"

text \<open>
  \<^verbatim>\<open>IntroducerExpr.eval\<close>; the first argument is the outcome of \<^verbatim>\<open>expr.Inner.eval(env)\<close>.
\<close>
definition IntroducerExpr_eval :: "error + eval option \<Rightarrow> TypedCollation \<Rightarrow> error + eval option" where
  "IntroducerExpr_eval inner tc =
     (case inner of
        Inl err \<Rightarrow> Inl err
      | Inr e \<Rightarrow>
          (case introducerCast e (Collation tc) of
             Inl err \<Rightarrow> Inl err
           | Inr b \<Rightarrow> Inr (Some (EvalBytes (setExplicit b)))))"

section \<open>COLLATE, interpreted\<close>

text \<open>
  \<^verbatim>\<open>evalToVarchar\<close> is not in the sources and the specification gives no more than
  "cast to character form", so it is a parameter of every definition that calls it:
  from a value that is not nil, a collation identifier and the \<^verbatim>\<open>convert\<close> flag to an
  error or a pointer to a byte string (\<open>None\<close> is the nil pointer).
\<close>
type_synonym toVarchar = "eval \<Rightarrow> ID \<Rightarrow> bool \<Rightarrow> error + evalBytes option"

text \<open>
  Modelled from the spec: an instance of \<^verbatim>\<open>evalToVarchar\<close> for concrete runs.
  Section 4.2, cast to character form: the raw bytes of the value become a character
  string under the collation, with the coercibility and repertoire that the
  specification gives for reinterpreted bytes (Coercible, ASCII); a byte string keeps
  its own coercibility and repertoire.
\<close>
fun evalToVarchar_model :: toVarchar where
  "evalToVarchar_model (EvalOther t raw) c convert =
     Inr (Some (newEvalText raw
       \<lparr>Collation = c, Coercibility = CoerceCoercible, Repertoire = RepertoireASCII\<rparr>))"
| "evalToVarchar_model (EvalBytes b) c convert =
     Inr (Some (newEvalText (bytes b) ((col b)\<lparr>Collation := c\<rparr>)))"

text \<open>
  Modelled from the spec: the declaration of \<^verbatim>\<open>ExpressionEnv\<close> is not in the sources.
  Section 3, execution context: the catalog handle (\<^verbatim>\<open>env.collationEnv\<close> in the sources)
  and the current row.
\<close>
record ExpressionEnv =
  collationEnv :: Environment
  Row :: "eval option list"

text \<open>
  \<^verbatim>\<open>CollateExpr.eval\<close>; \<open>inner\<close> is the outcome of \<^verbatim>\<open>c.Inner.eval(env)\<close>. A nil pointer
  from \<^verbatim>\<open>evalToVarchar\<close> reaches \<^verbatim>\<open>b.flag |= ...\<close> and panics there.
\<close>
definition CollateExpr_eval ::
  "toVarchar \<Rightarrow> ExpressionEnv \<Rightarrow> error + eval option \<Rightarrow> TypedCollation \<Rightarrow> error + eval option"
where
  "CollateExpr_eval tv ee inner tc =
     (case inner of
        Inl err \<Rightarrow> Inl err
      | Inr None \<Rightarrow> Inr None
      | Inr (Some (EvalBytes e)) \<Rightarrow>
          (case EnsureCollate (collationEnv ee) (Collation (col e)) (Collation tc) of
             Some msg \<Rightarrow> Inl (VtError INVALID_ARGUMENT msg)
           | None \<Rightarrow> Inr (Some (EvalBytes (setExplicit (withCollation e tc)))))
      | Inr (Some (EvalOther t raw)) \<Rightarrow>
          (case tv (EvalOther t raw) (Collation tc) True of
             Inl err \<Rightarrow> Inl err
           | Inr None \<Rightarrow> Inl (Panic NilPointerDereference)
           | Inr (Some b) \<Rightarrow> Inr (Some (EvalBytes (setExplicit b)))))"

section \<open>The compiler\<close>

text \<open>
  Modelled from the spec: the declaration of \<^verbatim>\<open>ctype\<close> is not in the sources. It is the
  compile-time type of a stack slot, with the three fields that the sources use.
\<close>
record ctype =
  Type :: Type
  Flag :: "typeFlag set"
  Col :: TypedCollation

text \<open>
  Modelled from the spec: the assembler is not in the sources. Section 4.4 names the
  instructions that the two nodes emit: the conditional forward skip on NULL, the
  rewrite of the collation metadata in place, the charset conversion, and the
  introducer instruction with its target type and collation. \<open>Push_inner\<close> stands for
  the code of an inner expression whose node kind is not in the sources.
\<close>
datatype instr =
  Push_inner "ExpressionEnv \<Rightarrow> error + eval option"
  | NullCheck1 nat
  | Collate TypedCollation
  | Convert_xc nat Type ID
  | Introduce nat Type TypedCollation

text \<open>
  Modelled from the spec: the declaration of \<^verbatim>\<open>compiler\<close> is not in the sources. It has
  the catalog handle (\<^verbatim>\<open>c.env.CollationEnv()\<close>) and the code emitted so far (\<^verbatim>\<open>c.asm\<close>);
  emitting an instruction appends it.
\<close>
record compiler =
  env :: Environment
  asm :: "instr list"

definition emit :: "compiler \<Rightarrow> instr \<Rightarrow> compiler" where
  "emit c i = c\<lparr>asm := asm c @ [i]\<rparr>"

text \<open>
  Modelled from the spec: \<^verbatim>\<open>compileNullCheck1\<close> and \<^verbatim>\<open>jumpDestination\<close> are not in the
  sources. Section 4.4, reserve then patch: when the slot may be NULL a skip with a
  placeholder offset is emitted and its position recorded; once the operator's
  instructions are emitted the placeholder gets the distance to the end of the code.
\<close>
definition compileNullCheck1 :: "compiler \<Rightarrow> ctype \<Rightarrow> nat option \<times> compiler" where
  "compileNullCheck1 c ct =
     (if flagNullable \<in> Flag ct then (Some (length (asm c)), emit c (NullCheck1 0))
      else (None, c))"

fun jumpDestination :: "compiler \<Rightarrow> nat option \<Rightarrow> compiler" where
  "jumpDestination c None = c"
| "jumpDestination c (Some pos) = c\<lparr>asm := (asm c)[pos := NullCheck1 (length (asm c) - pos)]\<rparr>"

text \<open>The end of \<^verbatim>\<open>CollateExpr.compile\<close>, after the \<^verbatim>\<open>switch\<close>.\<close>
definition collate_finish ::
  "ctype \<Rightarrow> TypedCollation \<Rightarrow> nat option \<Rightarrow> compiler \<Rightarrow> error + ctype \<times> compiler" where
  "collate_finish ct tc skip c =
     Inr (ct\<lparr>Type := VarChar, Col := tc,
              Flag := Flag ct \<union> {flagExplicitCollation, flagNullable}\<rparr>,
          jumpDestination c skip)"

text \<open>
  \<^verbatim>\<open>CollateExpr.compile\<close>; \<open>inner\<close> is the outcome of \<^verbatim>\<open>expr.Inner.compile(c)\<close>, the type
  of the inner expression and the compiler after its code. The case \<^verbatim>\<open>VarChar\<close> falls
  through to the case \<^verbatim>\<open>VarBinary\<close> after its check.
\<close>
definition CollateExpr_compile ::
  "error + ctype \<times> compiler \<Rightarrow> TypedCollation \<Rightarrow> error + ctype \<times> compiler" where
  "CollateExpr_compile inner tc =
     (case inner of
        Inl err \<Rightarrow> Inl err
      | Inr (ct, c) \<Rightarrow>
          (case compileNullCheck1 c ct of
             (skip, c1) \<Rightarrow>
               (case Type ct of
                  VarChar \<Rightarrow>
                    (case EnsureCollate (env c1) (Collation (Col ct)) (Collation tc) of
                       Some msg \<Rightarrow> Inl (VtError INVALID_ARGUMENT msg)
                     | None \<Rightarrow> collate_finish ct tc skip (emit c1 (Collate tc)))
                | VarBinary \<Rightarrow> collate_finish ct tc skip (emit c1 (Collate tc))
                | _ \<Rightarrow>
                    collate_finish ct tc skip
                      (emit c1 (Convert_xc 1 VarChar (Collation tc))))))"

text \<open>\<^verbatim>\<open>IntroducerExpr.compile\<close>; the type of the inner expression is dropped.\<close>
definition IntroducerExpr_compile ::
  "error + ctype \<times> compiler \<Rightarrow> TypedCollation \<Rightarrow> error + ctype \<times> compiler" where
  "IntroducerExpr_compile inner tc =
     (case inner of
        Inl err \<Rightarrow> Inl err
      | Inr (ct0, c) \<Rightarrow>
          (let t = (if Collation tc = CollationBinaryID then VarBinary else VarChar)
           in Inr (\<lparr>Type = t, Flag = {flagExplicitCollation}, Col = tc\<rparr>,
                   emit c (Introduce 1 t tc))))"

section \<open>Expression nodes\<close>

text \<open>
  Modelled from the spec: the interface \<^verbatim>\<open>IR\<close> is not in the sources, only two of its
  node kinds are. Section 9: a node has an evaluate and a compile capability. \<open>Inner\<close> is an
  expression of any other kind, given by its two capabilities: what it evaluates to
  and what its compilation returns.
\<close>
datatype IR =
  Inner "ExpressionEnv \<Rightarrow> error + eval option" "error + ctype"
  | CollateExpr IR TypedCollation
  | IntroducerExpr IR TypedCollation

fun IR_eval :: "toVarchar \<Rightarrow> ExpressionEnv \<Rightarrow> IR \<Rightarrow> error + eval option" where
  "IR_eval tv ee (Inner f r) = f ee"
| "IR_eval tv ee (CollateExpr x tc) = CollateExpr_eval tv ee (IR_eval tv ee x) tc"
| "IR_eval tv ee (IntroducerExpr x tc) = IntroducerExpr_eval (IR_eval tv ee x) tc"

fun IR_compile :: "compiler \<Rightarrow> IR \<Rightarrow> error + ctype \<times> compiler" where
  "IR_compile c (Inner f r) =
     (case r of Inl err \<Rightarrow> Inl err | Inr ct \<Rightarrow> Inr (ct, emit c (Push_inner f)))"
| "IR_compile c (CollateExpr x tc) = CollateExpr_compile (IR_compile c x) tc"
| "IR_compile c (IntroducerExpr x tc) = IntroducerExpr_compile (IR_compile c x) tc"

text \<open>
  Modelled from the spec: \<^verbatim>\<open>Compile\<close> of section 6 is not in the sources. It is the code
  of an expression, from an empty assembler.
\<close>
definition Compile :: "Environment \<Rightarrow> IR \<Rightarrow> error + instr list" where
  "Compile cenv x =
     (case IR_compile \<lparr>env = cenv, asm = []\<rparr> x of
        Inl err \<Rightarrow> Inl err
      | Inr (ct, c) \<Rightarrow> Inr (asm c))"

section \<open>The virtual machine\<close>

text \<open>The run-time stack; its head is the slot \<^verbatim>\<open>stack[sp-1]\<close>.\<close>
type_synonym vmstack = "eval option list"

text \<open>
  Modelled from the spec: the instructions are not in the sources. Section 4.5: every
  instruction has a fixed arity, addresses its operand relative to the top of the
  stack, and returns how far the instruction pointer moves. An operand that is not on
  the stack is the error kind Internal. The instructions do what section 4.4 says of
  them: the skip jumps when the slot is NULL, the rewrite replaces the collation of
  the byte string in place, the conversion casts to character form, and the
  introducer instruction runs \<open>introducerCast\<close> and sets the target type.
\<close>
definition slot :: "vmstack \<Rightarrow> nat \<Rightarrow> error + eval option" where
  "slot st off =
     (if off = 0 \<or> length st < off then Inl (VtError INTERNAL ''stack underflow'')
      else Inr (st ! (off - 1)))"

fun step :: "toVarchar \<Rightarrow> ExpressionEnv \<Rightarrow> instr \<Rightarrow> vmstack \<Rightarrow> error + vmstack \<times> nat" where
  "step tv ee (Push_inner f) st =
     (case f ee of Inl err \<Rightarrow> Inl err | Inr v \<Rightarrow> Inr (v # st, 1))"
| "step tv ee (NullCheck1 j) st =
     (case slot st 1 of
        Inl err \<Rightarrow> Inl err
      | Inr None \<Rightarrow> Inr (st, j)
      | Inr (Some v) \<Rightarrow> Inr (st, 1))"
| "step tv ee (Collate tc) st =
     (case slot st 1 of
        Inl err \<Rightarrow> Inl err
      | Inr (Some (EvalBytes a)) \<Rightarrow> Inr (st[0 := Some (EvalBytes (a\<lparr>col := tc\<rparr>))], 1)
      | Inr _ \<Rightarrow> Inl (Panic InterfaceConversion))"
| "step tv ee (Convert_xc off t c) st =
     (case slot st off of
        Inl err \<Rightarrow> Inl err
      | Inr None \<Rightarrow> Inl (Panic NilPointerDereference)
      | Inr (Some v) \<Rightarrow>
          (case tv v c True of
             Inl err \<Rightarrow> Inl err
           | Inr None \<Rightarrow> Inl (Panic NilPointerDereference)
           | Inr (Some b) \<Rightarrow> Inr (st[off - 1 := Some (EvalBytes (b\<lparr>tt := t\<rparr>))], 1)))"
| "step tv ee (Introduce off t tc) st =
     (case slot st off of
        Inl err \<Rightarrow> Inl err
      | Inr v \<Rightarrow>
          (case introducerCast v (Collation tc) of
             Inl err \<Rightarrow> Inl err
           | Inr b \<Rightarrow> Inr (st[off - 1 := Some (EvalBytes (b\<lparr>tt := t\<rparr>))], 1)))"

text \<open>
  Modelled from the spec: the loop of the machine. Section 4.5: jumps move the
  instruction pointer strictly forward, so a step that does not move it forward is a
  compiler defect (Internal) and the loop ends after at most as many steps as the
  program has instructions.
\<close>
function exec :: "toVarchar \<Rightarrow> ExpressionEnv \<Rightarrow> instr list \<Rightarrow> nat \<Rightarrow> vmstack \<Rightarrow> error + vmstack"
where
  "exec tv ee code ip st =
     (if ip < length code then
        (case step tv ee (code ! ip) st of
           Inl err \<Rightarrow> Inl err
         | Inr (st', off) \<Rightarrow>
             if off = 0 then Inl (VtError INTERNAL ''jump is not forward'')
             else exec tv ee code (ip + off) st')
      else Inr st)"
  by pat_completeness auto
termination
  by (relation "measure (\<lambda>(tv, ee, code, ip, st). length code - ip)") auto

declare exec.simps [simp del]

text \<open>
  Modelled from the spec: \<^verbatim>\<open>Program.Run\<close> of section 6 is not in the sources.
  Section 4.5: execution ends normally with exactly one value on the stack, the result.
\<close>
definition Run :: "toVarchar \<Rightarrow> ExpressionEnv \<Rightarrow> instr list \<Rightarrow> error + eval option" where
  "Run tv ee code =
     (case exec tv ee code 0 [] of
        Inl err \<Rightarrow> Inl err
      | Inr [v] \<Rightarrow> Inr v
      | Inr _ \<Rightarrow> Inl (VtError INTERNAL ''stack depth''))"

text \<open>The compiled path: compile with the catalog of the execution, then run.\<close>
definition Compile_Run :: "toVarchar \<Rightarrow> ExpressionEnv \<Rightarrow> IR \<Rightarrow> error + eval option" where
  "Compile_Run tv ee x =
     (case Compile (collationEnv ee) x of
        Inl err \<Rightarrow> Inl err
      | Inr code \<Rightarrow> Run tv ee code)"

section \<open>The parser pool\<close>

text \<open>
  Modelled from the spec: the generated parser \<^verbatim>\<open>yyParserImpl\<close> is not in the sources.
  It is the scratch state of one parse: the current semantic value, the parse stack
  and the lookahead token. A semantic value is kept as a number, 0 being its zero
  value.
\<close>
type_synonym yySymType = nat

record yyParserImpl =
  lval :: yySymType
  stack :: "yySymType list"
  char :: int

definition yyInitialStackSize :: nat where
  "yyInitialStackSize = 16"

text \<open>\<^verbatim>\<open>var zeroParser yyParserImpl\<close>: every field has its zero value.\<close>
definition zeroParser :: yyParserImpl where
  "zeroParser = \<lparr>lval = 0, stack = replicate yyInitialStackSize 0, char = 0\<rparr>"

text \<open>
  \<^verbatim>\<open>sync.Pool\<close> of the Go library: the parser objects that are in the pool. \<^verbatim>\<open>Get\<close> takes an arbitrary
  one out, or makes a new one with \<^verbatim>\<open>New\<close> (\<^verbatim>\<open>&yyParserImpl{}\<close>); which of them is the
  argument \<open>choice\<close>. \<^verbatim>\<open>Put\<close> adds an object.
\<close>
type_synonym parserPool = "yyParserImpl list"

definition Pool_New :: yyParserImpl where
  "Pool_New = \<lparr>lval = 0, stack = replicate yyInitialStackSize 0, char = 0\<rparr>"

fun Pool_Get :: "parserPool \<Rightarrow> nat option \<Rightarrow> yyParserImpl \<times> parserPool" where
  "Pool_Get pool None = (Pool_New, pool)"
| "Pool_Get pool (Some i) =
     (if i < length pool then (pool ! i, take i pool @ drop (Suc i) pool)
      else (Pool_New, pool))"

definition Pool_Put :: "parserPool \<Rightarrow> yyParserImpl \<Rightarrow> parserPool" where
  "Pool_Put pool p = p # pool"

text \<open>
  \<^verbatim>\<open>parser.Parse(yylex)\<close> is generated code and a parameter here: from the lexer and
  the parser object it is called on to the state it leaves the object in and its
  outcome, the returned status (0 for success, not 0 for a syntax error) or a panic.
\<close>
type_synonym 'l Parse = "'l \<Rightarrow> yyParserImpl \<Rightarrow> yyParserImpl \<times> (panic + int)"

text \<open>
  \<^verbatim>\<open>yyParsePooled\<close>. The deferred function runs on every way out of the call, a
  return as well as a panic: it overwrites the object with \<open>zeroParser\<close> and puts it
  back. The result is the pool after the call and the outcome of the parse.
\<close>
definition yyParsePooled ::
  "'l Parse \<Rightarrow> parserPool \<Rightarrow> nat option \<Rightarrow> 'l \<Rightarrow> parserPool \<times> (panic + int)" where
  "yyParsePooled parse pool choice yylex =
     (case Pool_Get pool choice of
        (parser, pool1) \<Rightarrow>
          (case parse yylex parser of
             (used, outcome) \<Rightarrow> (Pool_Put pool1 zeroParser, outcome)))"

text \<open>The parser object that a call of \<open>yyParsePooled\<close> hands to \<^verbatim>\<open>Parse\<close>.\<close>
definition acquired :: "parserPool \<Rightarrow> nat option \<Rightarrow> yyParserImpl" where
  "acquired pool choice = fst (Pool_Get pool choice)"

text \<open>
  A sequence of pooled parses, each with its choice in the pool and its lexer: the
  pool after the last one and the parser objects that the parses were given, in order.
\<close>
fun pooled_parses ::
  "'l Parse \<Rightarrow> parserPool \<Rightarrow> (nat option \<times> 'l) list \<Rightarrow> parserPool \<times> yyParserImpl list" where
  "pooled_parses parse pool [] = (pool, [])"
| "pooled_parses parse pool ((choice, yylex) # calls) =
     (case pooled_parses parse (fst (yyParsePooled parse pool choice yylex)) calls of
        (pool', given) \<Rightarrow> (pool', acquired pool choice # given))"

section \<open>A catalog for concrete runs\<close>

text \<open>
  Modelled from the spec: an \<open>Environment\<close> with MySQL's names for the collations of
  \<open>colldata_Lookup\<close>, for the runs on concrete inputs below.
\<close>
fun charset_name :: "Charset \<Rightarrow> string" where
  "charset_name Charset_binary = ''binary''"
| "charset_name Charset_latin1 = ''latin1''"
| "charset_name Charset_utf8mb3 = ''utf8mb3''"
| "charset_name Charset_utf8mb4 = ''utf8mb4''"
| "charset_name Charset_utf16 = ''utf16''"
| "charset_name Charset_utf16le = ''utf16le''"
| "charset_name Charset_ucs2 = ''ucs2''"
| "charset_name Charset_utf32 = ''utf32''"

definition mysql_env :: Environment where
  "mysql_env =
     \<lparr>LookupName = (\<lambda>c. if c = 63 then ''binary''
                        else if c = 8 then ''latin1_swedish_ci''
                        else if c = 45 then ''utf8mb4_general_ci''
                        else if c = 46 then ''utf8mb4_bin''
                        else []),
      LookupCharsetName = (\<lambda>c. case colldata_Lookup c of
                                  None \<Rightarrow> [] | Some cs \<Rightarrow> charset_name cs)\<rparr>"

text \<open>The typed collation of an explicit \<^verbatim>\<open>COLLATE utf8mb4_bin\<close>.\<close>
definition utf8mb4_bin_explicit :: TypedCollation where
  "utf8mb4_bin_explicit =
     \<lparr>Collation = 46, Coercibility = CoerceExplicit, Repertoire = RepertoireUnicode\<rparr>"

text \<open>The bytes of \<^verbatim>\<open>'abc'\<close>.\<close>
definition abc :: "byte list" where
  "abc = [0x61, 0x62, 0x63]"

text \<open>
  Inner expressions for the concrete runs: a constant, and the first column of the row.
  The literal \<^verbatim>\<open>'abc'\<close> is a character string under \<^verbatim>\<open>utf8mb4_general_ci\<close>; the columns
  are declared nullable, one as a binary string and one as a character string under
  \<^verbatim>\<open>latin1_swedish_ci\<close>.
\<close>
definition literal_value :: "eval option \<Rightarrow> ExpressionEnv \<Rightarrow> error + eval option" where
  "literal_value v ee = Inr v"

definition first_column :: "ExpressionEnv \<Rightarrow> error + eval option" where
  "first_column ee =
     (case Row ee of
        [] \<Rightarrow> Inl (VtError INTERNAL ''no such column'')
      | v # vs \<Rightarrow> Inr v)"

definition utf8mb4_general_ci_coercible :: TypedCollation where
  "utf8mb4_general_ci_coercible =
     \<lparr>Collation = 45, Coercibility = CoerceCoercible, Repertoire = RepertoireUnicode\<rparr>"

definition latin1_swedish_ci_implicit :: TypedCollation where
  "latin1_swedish_ci_implicit =
     \<lparr>Collation = 8, Coercibility = CoerceImplicit, Repertoire = RepertoireUnicode\<rparr>"

definition text_abc :: evalBytes where
  "text_abc = newEvalText abc utf8mb4_general_ci_coercible"

definition literal_abc :: IR where
  "literal_abc =
     Inner (literal_value (Some (EvalBytes text_abc)))
           (Inr \<lparr>Type = VarChar, Flag = {}, Col = utf8mb4_general_ci_coercible\<rparr>)"



definition binary_column :: IR where
  "binary_column =
     Inner first_column
           (Inr \<lparr>Type = VarBinary, Flag = {flagNullable}, Col = collationBinary\<rparr>)"

definition latin1_column :: IR where
  "latin1_column =
     Inner first_column
           (Inr \<lparr>Type = VarChar, Flag = {flagNullable}, Col = latin1_swedish_ci_implicit\<rparr>)"

definition run_env :: "eval option list \<Rightarrow> ExpressionEnv" where
  "run_env r = \<lparr>collationEnv = mysql_env, Row = r\<rparr>"

section \<open>The introducer: padding, opaque binary, values that are not byte strings\<close>

text \<open>The number of zero bytes in front makes the length a multiple of the unit width.\<close>
lemma pad4_dvd: "4 dvd ((4 - n mod 4) mod 4 + (n::nat))"
proof -
  let ?m = "n mod 4"
  have "?m = 0 \<or> ?m = 1 \<or> ?m = 2 \<or> ?m = 3"
    by arith
  then have "((4 - ?m) mod 4 + ?m) mod 4 = 0"
    by auto
  moreover have "((4 - ?m) mod 4 + n) mod 4 = ((4 - ?m) mod 4 + ?m) mod 4"
    by (simp add: mod_add_right_eq)
  ultimately show ?thesis
    by (simp only: dvd_eq_mod_eq_0)
qed

lemma pad2_dvd: "2 dvd (n mod 2 + (n::nat))"
  by (cases "even n") (simp_all add: odd_iff_mod_2_eq_one)

lemma pad_utf32:
  "pad_for_charset Charset_utf32 raw = replicate ((4 - length raw mod 4) mod 4) 0 @ raw"
  by (simp add: Let_def)

lemma pad_two_bytes:
  "cs \<in> {Charset_utf16, Charset_utf16le, Charset_ucs2} \<Longrightarrow>
   pad_for_charset cs raw = replicate (length raw mod 2) 0 @ raw"
  by auto

lemma introducerCast_bytes:
  "c \<noteq> CollationBinaryID \<Longrightarrow> colldata_Lookup c = Some cs \<Longrightarrow>
   introducerCast (Some (EvalBytes b)) c =
     Inr (newEvalText (pad_for_charset cs (bytes b))
           \<lparr>Collation = c, Coercibility = CoerceCoercible, Repertoire = RepertoireASCII\<rparr>)"
  by (simp add: introducerCast_def)

text \<open>
  Claim C2. An introducer on a byte string \<open>b\<close>, with a target collation other than
  binary whose charset is UTF-16, UTF-16LE, UCS2 or UTF-32, returns the bytes of \<open>b\<close>
  behind \<open>k\<close> zero bytes. For the three two-byte charsets \<open>k\<close> is the length modulo 2:
  one zero byte for an odd length, none for an even one. For UTF-32 \<open>k\<close> is what is
  missing to the next multiple of 4, and 0 when the length is a multiple of 4. In both
  cases \<open>k\<close> is less than the unit width and the padded length is a multiple of it.
\<close>
theorem introducerCast_pads_to_unit_width:
  assumes "c \<noteq> CollationBinaryID"
    and "colldata_Lookup c = Some cs"
    and "cs \<in> {Charset_utf16, Charset_utf16le, Charset_ucs2, Charset_utf32}"
  shows "\<exists>k. introducerCast (Some (EvalBytes b)) c =
            Inr (newEvalText (replicate k 0 @ bytes b)
                  \<lparr>Collation = c, Coercibility = CoerceCoercible,
                   Repertoire = RepertoireASCII\<rparr>)
          \<and> k = (if cs = Charset_utf32 then (4 - length (bytes b) mod 4) mod 4
                 else length (bytes b) mod 2)
          \<and> k < (if cs = Charset_utf32 then 4 else 2)
          \<and> (if cs = Charset_utf32 then 4 else 2) dvd (k + length (bytes b))"
proof (cases "cs = Charset_utf32")
  case True
  let ?k = "(4 - length (bytes b) mod 4) mod 4"
  have cast: "introducerCast (Some (EvalBytes b)) c =
      Inr (newEvalText (replicate ?k 0 @ bytes b)
            \<lparr>Collation = c, Coercibility = CoerceCoercible, Repertoire = RepertoireASCII\<rparr>)"
    using introducerCast_bytes [OF assms(1,2), of b] True by (simp only: pad_utf32)
  have small: "?k < 4"
    by simp
  have multiple: "4 dvd (?k + length (bytes b))"
    by (rule pad4_dvd)
  from cast small multiple True show ?thesis
    by (intro exI [of _ ?k]) (simp only: if_True simp_thms)
next
  case False
  let ?k = "length (bytes b) mod 2"
  from False assms(3) have two: "cs \<in> {Charset_utf16, Charset_utf16le, Charset_ucs2}"
    by simp
  have cast: "introducerCast (Some (EvalBytes b)) c =
      Inr (newEvalText (replicate ?k 0 @ bytes b)
            \<lparr>Collation = c, Coercibility = CoerceCoercible, Repertoire = RepertoireASCII\<rparr>)"
    using introducerCast_bytes [OF assms(1,2), of b] by (simp only: pad_two_bytes [OF two])
  have small: "?k < 2"
    by simp
  have multiple: "2 dvd (?k + length (bytes b))"
    by (rule pad2_dvd)
  from cast small multiple False show ?thesis
    by (intro exI [of _ ?k]) (simp only: if_False simp_thms)
qed

text \<open>The three bytes of \<^verbatim>\<open>'abc'\<close> under \<^verbatim>\<open>utf16_general_ci\<close> (54) get one leading zero byte.\<close>
theorem introducerCast_pads_to_unit_width_witness:
  "introducerCast (Some (EvalBytes (newEvalBinary abc))) 54 =
     Inr (newEvalText (0 # abc)
           \<lparr>Collation = 54, Coercibility = CoerceCoercible, Repertoire = RepertoireASCII\<rparr>)"
proof -
  have not_binary: "(54::nat) \<noteq> CollationBinaryID"
    by (simp add: CollationBinaryID_def)
  have utf16: "colldata_Lookup 54 = Some Charset_utf16"
    by (simp add: colldata_Lookup_def)
  have raw: "bytes (newEvalBinary abc) = abc"
    by (simp add: newEvalBinary_def)
  have odd_length: "length abc mod 2 = 1"
    by (simp add: abc_def)
  from introducerCast_pads_to_unit_width [OF not_binary utf16, of "newEvalBinary abc"]
  obtain k where "introducerCast (Some (EvalBytes (newEvalBinary abc))) 54 =
      Inr (newEvalText (replicate k 0 @ bytes (newEvalBinary abc))
            \<lparr>Collation = 54, Coercibility = CoerceCoercible, Repertoire = RepertoireASCII\<rparr>)"
    and "k = length (bytes (newEvalBinary abc)) mod 2"
    by auto
  then show ?thesis
    by (simp add: raw odd_length)
qed

text \<open>
  Whatever the value is, as long as it is not a byte string, and whatever the target
  other than binary: the call \<^verbatim>\<open>b.ToRawBytes()\<close> is on the nil \<open>b\<close>, never on \<open>e\<close>.
\<close>
lemma introducerCast_not_bytes:
  "c \<noteq> CollationBinaryID \<Longrightarrow> as_evalBytes e = None \<Longrightarrow>
   introducerCast e c = Inl (Panic NilPointerDereference)"
  by (simp add: introducerCast_def)

text \<open>
  Claim C8 says that \<open>introducerCast\<close> returns a result for every value that is not NULL
  and every target other than binary, from the raw bytes of the value when it is not a
  byte string. On the number 5 and \<^verbatim>\<open>utf8mb4_general_ci\<close> (45) the source dereferences a
  nil pointer instead.
\<close>
theorem introducerCast_not_bytes_panics:
  "introducerCast (Some (EvalOther Int64 [0x35])) 45 = Inl (Panic NilPointerDereference)"
  by (simp add: introducerCast_def CollationBinaryID_def)

text \<open>
  Claim C5. With the binary collation as target, an introducer on a byte string
  literal evaluates to a binary string with exactly the bytes of the literal, under
  \<open>collationBinary\<close>, whose coercibility is Coercible.
\<close>
theorem introducer_binary_is_opaque:
  assumes "Collation tc = CollationBinaryID"
    and "IR_eval tv ee x = Inr (Some (EvalBytes lit))"
  shows "IR_eval tv ee (IntroducerExpr x tc) =
           Inr (Some (EvalBytes \<lparr>tt = VarBinary, flag = {flagExplicitCollation},
                                 col = collationBinary, bytes = bytes lit\<rparr>))
         \<and> Coercibility collationBinary = CoerceCoercible"
  using assms
  by (simp add: IntroducerExpr_eval_def introducerCast_def newEvalBinary_def setExplicit_def
      collationBinary_def)

theorem introducer_binary_is_opaque_witness:
  "IR_eval evalToVarchar_model (run_env []) (IntroducerExpr literal_abc collationBinary) =
     Inr (Some (EvalBytes \<lparr>tt = VarBinary, flag = {flagExplicitCollation},
                           col = collationBinary, bytes = abc\<rparr>))"
proof -
  have binary: "Collation collationBinary = CollationBinaryID"
    by (simp add: collationBinary_def)
  have literal: "IR_eval evalToVarchar_model (run_env []) literal_abc =
      Inr (Some (EvalBytes text_abc))"
    by (simp add: literal_abc_def literal_value_def)
  have raw: "bytes text_abc = abc"
    by (simp add: text_abc_def newEvalText_def)
  from introducer_binary_is_opaque [OF binary literal] show ?thesis
    by (simp only: raw)
qed

section \<open>COLLATE on the interpreted path\<close>





lemma CollateExpr_eval_other:
  "CollateExpr_eval tv ee (Inr (Some (EvalOther t raw))) tc =
     (case tv (EvalOther t raw) (Collation tc) True of
        Inl err \<Rightarrow> Inl err
      | Inr None \<Rightarrow> Inl (Panic NilPointerDereference)
      | Inr (Some b) \<Rightarrow> Inr (Some (EvalBytes (setExplicit b))))"
  by (simp add: CollateExpr_eval_def)

lemma CollateExpr_eval_null: "CollateExpr_eval tv ee (Inr None) tc = Inr None"
  by (simp add: CollateExpr_eval_def)

text \<open>
  Claim C9. When the inner expression of a COLLATE node evaluates to NULL, the node
  evaluates to NULL without error, for every catalog and every target collation:
  \<open>EnsureCollate\<close> is not consulted.
\<close>
theorem collate_null_skips_check:
  "IR_eval tv ee x = Inr None \<Longrightarrow> IR_eval tv ee (CollateExpr x tc) = Inr None"
  by (simp add: CollateExpr_eval_null)

text \<open>A NULL in a binary column, collated to \<^verbatim>\<open>utf8mb4_bin\<close>, which binary is not compatible with.\<close>
theorem collate_null_skips_check_witness:
  "EnsureCollate mysql_env (Collation collationBinary) (Collation utf8mb4_bin_explicit) \<noteq> None
   \<and> IR_eval evalToVarchar_model (run_env [None])
       (CollateExpr binary_column utf8mb4_bin_explicit) = Inr None"
proof -
  have null: "IR_eval evalToVarchar_model (run_env [None]) binary_column = Inr None"
    by (simp add: binary_column_def first_column_def run_env_def)
  have incompatible:
    "EnsureCollate mysql_env (Collation collationBinary) (Collation utf8mb4_bin_explicit) \<noteq> None"
    by (simp add: EnsureCollate_def mysql_env_def colldata_Lookup_def collationBinary_def
        CollationBinaryID_def utf8mb4_bin_explicit_def)
  from collate_null_skips_check [OF null, of utf8mb4_bin_explicit] incompatible
  show ?thesis
    by simp
qed

text \<open>Every value that COLLATE returns is a byte string with the flag of an explicit collation.\<close>
lemma collate_eval_result_is_explicit:
  assumes "CollateExpr_eval tv ee inner tc = Inr (Some v)"
  shows "\<exists>b. v = EvalBytes b \<and> flagExplicitCollation \<in> flag b"
  using assms
  by (auto simp: CollateExpr_eval_def setExplicit_def
      split: sum.splits option.splits eval.splits)

text \<open>
  The cast of a value that is not a byte string gets the identifier of the target
  collation only, so its result cannot depend on the coercibility and repertoire of
  the target.
\<close>
lemma collate_cast_sees_only_the_ID:
  "Collation c1 = Collation c2 \<Longrightarrow>
   CollateExpr_eval tv ee (Inr (Some (EvalOther t raw))) c1 =
   CollateExpr_eval tv ee (Inr (Some (EvalOther t raw))) c2"
  by (simp add: CollateExpr_eval_other)




section \<open>COLLATE and the introducer, compiled\<close>

lemma patch_placeholder: "(xs @ [NullCheck1 0, i])[length xs := NullCheck1 2] = xs @ [NullCheck1 2, i]"
  by (simp add: list_update_append)

lemma collate_code:
  "collate_finish ct tc (fst (compileNullCheck1 c1 ct)) (emit (snd (compileNullCheck1 c1 ct)) i) =
     Inr (ct\<lparr>Type := VarChar, Col := tc,
               Flag := Flag ct \<union> {flagExplicitCollation, flagNullable}\<rparr>,
          c1\<lparr>asm := asm c1 @ (if flagNullable \<in> Flag ct then [NullCheck1 2, i] else [i])\<rparr>)"
  by (simp add: collate_finish_def compileNullCheck1_def emit_def patch_placeholder)

lemma env_compileNullCheck1: "env (snd (compileNullCheck1 c ct)) = env c"
  by (simp add: compileNullCheck1_def emit_def)

lemma CollateExpr_compile_cases:
  "CollateExpr_compile (Inr (ct, c1)) tc =
     (if Type ct = VarChar then
        (case EnsureCollate (env c1) (Collation (Col ct)) (Collation tc) of
           Some msg \<Rightarrow> Inl (VtError INVALID_ARGUMENT msg)
         | None \<Rightarrow>
             collate_finish ct tc (fst (compileNullCheck1 c1 ct))
               (emit (snd (compileNullCheck1 c1 ct)) (Collate tc)))
      else if Type ct = VarBinary then
        collate_finish ct tc (fst (compileNullCheck1 c1 ct))
          (emit (snd (compileNullCheck1 c1 ct)) (Collate tc))
      else
        collate_finish ct tc (fst (compileNullCheck1 c1 ct))
          (emit (snd (compileNullCheck1 c1 ct)) (Convert_xc 1 VarChar (Collation tc))))"
proof -
  obtain skip c2 where checked: "compileNullCheck1 c1 ct = (skip, c2)"
    by (cases "compileNullCheck1 c1 ct")
  then have same_env: "env c2 = env c1"
    using env_compileNullCheck1 [of c1 ct] by simp
  show ?thesis
    by (cases "Type ct")
       (simp_all add: CollateExpr_compile_def checked same_env split: option.split)
qed

text \<open>
  Claim C10. After the inner expression has compiled to the type \<open>ct\<close>, the
  compilation of a COLLATE node consults \<open>EnsureCollate\<close> exactly when \<open>ct\<close> is VarChar:
  there it fails with InvalidArgument when the collations are incompatible. When \<open>ct\<close>
  is VarBinary it emits the rewrite of the collation metadata and succeeds whatever
  \<open>EnsureCollate\<close> says, and for every type other than VarChar it succeeds.
\<close>
theorem collate_compile_checks_only_varchar:
  assumes "IR_compile c x = Inr (ct, c1)"
  shows "(Type ct = VarChar \<longrightarrow>
            IR_compile c (CollateExpr x tc) =
              (case EnsureCollate (env c1) (Collation (Col ct)) (Collation tc) of
                 Some msg \<Rightarrow> Inl (VtError INVALID_ARGUMENT msg)
               | None \<Rightarrow>
                   Inr (ct\<lparr>Type := VarChar, Col := tc,
                             Flag := Flag ct \<union> {flagExplicitCollation, flagNullable}\<rparr>,
                        c1\<lparr>asm := asm c1 @ (if flagNullable \<in> Flag ct
                                              then [NullCheck1 2, Collate tc]
                                              else [Collate tc])\<rparr>)))
       \<and> (Type ct = VarBinary \<longrightarrow>
            IR_compile c (CollateExpr x tc) =
              Inr (ct\<lparr>Type := VarChar, Col := tc,
                        Flag := Flag ct \<union> {flagExplicitCollation, flagNullable}\<rparr>,
                   c1\<lparr>asm := asm c1 @ (if flagNullable \<in> Flag ct
                                         then [NullCheck1 2, Collate tc]
                                         else [Collate tc])\<rparr>))
       \<and> (Type ct \<noteq> VarChar \<longrightarrow> (\<exists>r. IR_compile c (CollateExpr x tc) = Inr r))"
  using assms
  by (simp add: CollateExpr_compile_cases collate_code split: option.split)

text \<open>
  \<^verbatim>\<open>_binary 'abc' COLLATE utf8mb4_bin\<close> compiles, although binary and \<^verbatim>\<open>utf8mb4_bin\<close> are
  not compatible.
\<close>
theorem collate_compile_checks_only_varchar_witness:
  "EnsureCollate mysql_env (Collation collationBinary) (Collation utf8mb4_bin_explicit) \<noteq> None
   \<and> IR_compile \<lparr>env = mysql_env, asm = []\<rparr>
        (CollateExpr (IntroducerExpr literal_abc collationBinary) utf8mb4_bin_explicit) =
     Inr (\<lparr>Type = VarChar, Flag = {flagExplicitCollation, flagNullable},
           Col = utf8mb4_bin_explicit\<rparr>,
          \<lparr>env = mysql_env,
           asm = [Push_inner (literal_value (Some (EvalBytes text_abc))),
                  Introduce 1 VarBinary collationBinary,
                  Collate utf8mb4_bin_explicit]\<rparr>)"
proof -
  have inner: "IR_compile \<lparr>env = mysql_env, asm = []\<rparr> (IntroducerExpr literal_abc collationBinary) =
      Inr (\<lparr>Type = VarBinary, Flag = {flagExplicitCollation}, Col = collationBinary\<rparr>,
           \<lparr>env = mysql_env,
            asm = [Push_inner (literal_value (Some (EvalBytes text_abc))),
                   Introduce 1 VarBinary collationBinary]\<rparr>)"
    by (simp add: literal_abc_def IntroducerExpr_compile_def emit_def collationBinary_def)
  have incompatible:
    "EnsureCollate mysql_env (Collation collationBinary) (Collation utf8mb4_bin_explicit) \<noteq> None"
    by (simp add: EnsureCollate_def mysql_env_def colldata_Lookup_def collationBinary_def
        CollationBinaryID_def utf8mb4_bin_explicit_def)
  from collate_compile_checks_only_varchar [OF inner, of utf8mb4_bin_explicit] incompatible
  show ?thesis
    by (simp del: IR_compile.simps add: insert_commute)
qed

section \<open>Running compiled code\<close>








text \<open>
  Claim C1 says that the compiled program and the interpreter agree on every COLLATE
  node, errors included. They disagree in both directions. On a binary string from a
  column declared VarBinary, \<^verbatim>\<open>COLLATE utf8mb4_bin\<close> is rejected by the interpreter with
  InvalidArgument and yields a value when compiled. On a NULL from a column declared
  as a \<^verbatim>\<open>latin1\<close> character string, the interpreter yields NULL and the compiler
  rejects the node with InvalidArgument.
\<close>
theorem collate_paths_disagree:
  "IR_eval evalToVarchar_model (run_env [Some (EvalBytes (newEvalBinary abc))])
     (CollateExpr binary_column utf8mb4_bin_explicit) =
     Inl (VtError INVALID_ARGUMENT
            ''COLLATION utf8mb4_bin is not valid for CHARACTER SET binary'')
   \<and> Compile_Run evalToVarchar_model (run_env [Some (EvalBytes (newEvalBinary abc))])
       (CollateExpr binary_column utf8mb4_bin_explicit) =
     Inr (Some (EvalBytes \<lparr>tt = VarBinary, flag = {}, col = utf8mb4_bin_explicit,
                           bytes = abc\<rparr>))
   \<and> IR_eval evalToVarchar_model (run_env [None])
       (CollateExpr latin1_column utf8mb4_bin_explicit) = Inr None
   \<and> Compile_Run evalToVarchar_model (run_env [None])
       (CollateExpr latin1_column utf8mb4_bin_explicit) =
     Inl (VtError INVALID_ARGUMENT
            ''COLLATION utf8mb4_bin is not valid for CHARACTER SET latin1'')"
  by code_simp

text \<open>
  Claim C3 says that both paths validate the collations of a COLLATE node and fail
  with InvalidArgument when they are incompatible. For \<^verbatim>\<open>_binary 'abc' COLLATE utf8mb4_bin\<close>
  the collations are incompatible and the interpreter fails so, but the compiled path
  validates nothing for an inner expression of type VarBinary and yields a value.
\<close>
theorem compiled_collate_does_not_validate_binary:
  "EnsureCollate mysql_env (Collation collationBinary) (Collation utf8mb4_bin_explicit) =
     Some ''COLLATION utf8mb4_bin is not valid for CHARACTER SET binary''
   \<and> IR_eval evalToVarchar_model (run_env [])
       (CollateExpr (IntroducerExpr literal_abc collationBinary) utf8mb4_bin_explicit) =
     Inl (VtError INVALID_ARGUMENT
            ''COLLATION utf8mb4_bin is not valid for CHARACTER SET binary'')
   \<and> Compile_Run evalToVarchar_model (run_env [])
       (CollateExpr (IntroducerExpr literal_abc collationBinary) utf8mb4_bin_explicit) =
     Inr (Some (EvalBytes \<lparr>tt = VarBinary, flag = {}, col = utf8mb4_bin_explicit,
                           bytes = abc\<rparr>))"
  by code_simp

section \<open>The pooled parser\<close>

lemma Pool_New_zero: "Pool_New = zeroParser"
  by (simp add: Pool_New_def zeroParser_def)

lemma Pool_Get_zero:
  "list_all (\<lambda>p. p = zeroParser) pool \<Longrightarrow>
   fst (Pool_Get pool choice) = zeroParser
   \<and> list_all (\<lambda>p. p = zeroParser) (snd (Pool_Get pool choice))"
proof (cases choice)
  case None
  assume "list_all (\<lambda>p. p = zeroParser) pool"
  with None show ?thesis
    by (simp add: Pool_New_zero)
next
  case (Some i)
  assume zero: "list_all (\<lambda>p. p = zeroParser) pool"
  show ?thesis
  proof (cases "i < length pool")
    case True
    from zero True have "pool ! i = zeroParser"
      by (simp add: list_all_length)
    moreover from zero have "list_all (\<lambda>p. p = zeroParser) (take i pool @ drop (Suc i) pool)"
      by (auto simp: list_all_iff dest: in_set_takeD in_set_dropD)
    ultimately show ?thesis
      using Some True by simp
  next
    case False
    with Some zero show ?thesis
      by (simp add: Pool_New_zero)
  qed
qed

lemma yyParsePooled_pool:
  "fst (yyParsePooled parse pool choice yylex) = Pool_Put (snd (Pool_Get pool choice)) zeroParser"
  by (simp add: yyParsePooled_def split: prod.split)

lemma yyParsePooled_outcome:
  "snd (yyParsePooled parse pool choice yylex) = snd (parse yylex (acquired pool choice))"
  by (simp add: yyParsePooled_def acquired_def split: prod.split)

lemma yyParsePooled_keeps_zero:
  "list_all (\<lambda>p. p = zeroParser) pool \<Longrightarrow>
   list_all (\<lambda>p. p = zeroParser) (fst (yyParsePooled parse pool choice yylex))"
  using Pool_Get_zero [of pool choice]
  by (simp add: yyParsePooled_pool Pool_Put_def)

lemma pooled_parses_zero:
  "list_all (\<lambda>p. p = zeroParser) pool \<Longrightarrow>
   list_all (\<lambda>p. p = zeroParser) (fst (pooled_parses parse pool calls))
   \<and> list_all (\<lambda>p. p = zeroParser) (snd (pooled_parses parse pool calls))"
proof (induction calls arbitrary: pool)
  case Nil
  then show ?case
    by simp
next
  case (Cons call calls)
  obtain choice yylex where call: "call = (choice, yylex)"
    by (cases call)
  let ?pool = "fst (yyParsePooled parse pool choice yylex)"
  from Cons.prems have "list_all (\<lambda>p. p = zeroParser) ?pool"
    by (rule yyParsePooled_keeps_zero)
  then have rest: "list_all (\<lambda>p. p = zeroParser) (fst (pooled_parses parse ?pool calls))
      \<and> list_all (\<lambda>p. p = zeroParser) (snd (pooled_parses parse ?pool calls))"
    by (rule Cons.IH)
  from Cons.prems have "acquired pool choice = zeroParser"
    using Pool_Get_zero [of pool choice] by (simp add: acquired_def)
  with rest show ?case
    by (cases "pooled_parses parse ?pool calls") (simp add: call)
qed

text \<open>
  Claim C7. Whatever \<^verbatim>\<open>Parse\<close> does to the parser object and however it ends, a status
  or a panic, \<open>yyParsePooled\<close> puts \<open>zeroParser\<close> back into the pool and passes the outcome
  on. So in every sequence of pooled parses that starts with an empty pool, every
  parser object handed to \<^verbatim>\<open>Parse\<close> is in the all-zero state, and so is every object in
  the pool afterwards.
\<close>
theorem pooled_parser_is_always_reset:
  "fst (yyParsePooled parse pool choice yylex) = Pool_Put (snd (Pool_Get pool choice)) zeroParser
   \<and> snd (yyParsePooled parse pool choice yylex) = snd (parse yylex (acquired pool choice))
   \<and> list_all (\<lambda>p. p = zeroParser) (fst (pooled_parses parse [] calls))
   \<and> list_all (\<lambda>p. p = zeroParser) (snd (pooled_parses parse [] calls))"
  using pooled_parses_zero [of "[]" parse calls]
  by (simp add: yyParsePooled_pool yyParsePooled_outcome)

end
